theory Spec2Isabelle
  imports Complex_Main
begin

section \<open>Python values and faults\<close>

text \<open>
  The trainer of \<^verbatim>\<open>machine_learning.py\<close> and the data access of \<^verbatim>\<open>data.py\<close>,
  embedded as HOL functions. Python's \<^verbatim>\<open>float\<close> is read as \<^typ>\<open>real\<close>: the
  arithmetic is the exact one, rounding, infinities and NaN are outside the model.
  Python's unbounded \<^verbatim>\<open>int\<close> is \<^typ>\<open>int\<close>; \<^verbatim>\<open>//\<close> and \<^verbatim>\<open>%\<close> round towards
  minus infinity as \<open>div\<close> and \<open>mod\<close> do. An exception is a value of \<open>error\<close>; a
  function that can raise returns \<open>error + 'a\<close> with \<open>Inl\<close> for the exception. A
  leading underscore of a Python name is dropped.
\<close>

datatype error =
  ZeroDivisionError | IndexError | KeyError | ValueError | AttributeError

text \<open>\<^verbatim>\<open>xs[i]\<close>: a negative index counts from the end, an index out of range raises.\<close>

definition py_index :: "'a list \<Rightarrow> int \<Rightarrow> error + 'a" where
  "py_index xs i =
     (let n = int (length xs); k = (if i < 0 then n + i else i)
      in if 0 \<le> k \<and> k < n then Inr (xs ! nat k) else Inl IndexError)"

text \<open>\<^verbatim>\<open>xs[i] = v\<close> on a list, with the same reading of the index.\<close>

definition py_store :: "'a list \<Rightarrow> int \<Rightarrow> 'a \<Rightarrow> error + 'a list" where
  "py_store xs i v =
     (let n = int (length xs); k = (if i < 0 then n + i else i)
      in if 0 \<le> k \<and> k < n then Inr (xs[nat k := v]) else Inl IndexError)"

section \<open>The scalar helpers of \<^verbatim>\<open>MachineLearning\<close>\<close>

text \<open>\<^verbatim>\<open>return ((predicted - target) / target) * 100\<close>\<close>

definition calculate_error :: "real \<Rightarrow> real \<Rightarrow> error + real" where
  "calculate_error predicted target =
     (if target = 0 then Inl ZeroDivisionError
      else Inr (((predicted - target) / target) * 100))"

text \<open>\<^verbatim>\<open>return regularization * (1 if weights[i][j] > 0 else -1)\<close>\<close>

definition get_lasso_regularization ::
  "real \<Rightarrow> real list list \<Rightarrow> int \<Rightarrow> int \<Rightarrow> error + real" where
  "get_lasso_regularization regularization weights i j =
     (case py_index weights i of
        Inl e \<Rightarrow> Inl e
      | Inr row \<Rightarrow>
          (case py_index row j of
             Inl e \<Rightarrow> Inl e
           | Inr w \<Rightarrow> Inr (regularization * (if w > 0 then 1 else - 1))))"

text \<open>\<^verbatim>\<open>return regularization * weights[i][j]\<close>\<close>

definition get_ridge_regularization ::
  "real \<Rightarrow> real list list \<Rightarrow> int \<Rightarrow> int \<Rightarrow> error + real" where
  "get_ridge_regularization regularization weights i j =
     (case py_index weights i of
        Inl e \<Rightarrow> Inl e
      | Inr row \<Rightarrow>
          (case py_index row j of
             Inl e \<Rightarrow> Inl e
           | Inr w \<Rightarrow> Inr (regularization * w)))"

text \<open>
  \<^verbatim>\<open>weights[i][j] -= learning_rate * gradient * input_dataset[j]\<close>: the entry is read,
  then the right-hand side, then the entry is stored. The matrix is a value here, so the
  function returns the updated matrix; rows that are one shared list object are outside
  the model.
\<close>

definition calculate_gradient_descent ::
  "real list \<Rightarrow> real \<Rightarrow> real \<Rightarrow> real list list \<Rightarrow> int \<Rightarrow> int \<Rightarrow> error + real list list" where
  "calculate_gradient_descent input_dataset learning_rate gradient weights i j =
     (case py_index weights i of
        Inl e \<Rightarrow> Inl e
      | Inr row \<Rightarrow>
          (case py_index row j of
             Inl e \<Rightarrow> Inl e
           | Inr w \<Rightarrow>
               (case py_index input_dataset j of
                  Inl e \<Rightarrow> Inl e
                | Inr x \<Rightarrow>
                    (case py_store row j (w - learning_rate * gradient * x) of
                       Inl e \<Rightarrow> Inl e
                     | Inr row' \<Rightarrow> py_store weights i row'))))"

text \<open>
  \<^verbatim>\<open>if epoch % (epochs // 4) == 0 and epoch != 0: learning_rate *= learning_decay\<close>.
  The modulo is the left operand of \<^verbatim>\<open>and\<close>, so it is evaluated for every epoch, and
  Python raises on a zero divisor.
\<close>

definition calculate_learning_decay :: "int \<Rightarrow> int \<Rightarrow> real \<Rightarrow> real \<Rightarrow> error + real" where
  "calculate_learning_decay epoch epochs learning_rate learning_decay =
     (if epochs div 4 = 0 then Inl ZeroDivisionError
      else if epoch mod (epochs div 4) = 0 \<and> epoch \<noteq> 0
           then Inr (learning_rate * learning_decay)
           else Inr learning_rate)"

section \<open>Layers and \<^verbatim>\<open>update_weights\<close>\<close>

text \<open>
  The layer classes live in \<^verbatim>\<open>layers.py\<close>, which is not among the sources. The trainer
  uses three attributes of a layer and one method, \<^verbatim>\<open>get_layer_dataset()\<close>. The method
  is the field \<open>forward\<close>: it computes the neuron outputs from the weights, the bias and
  the input of the layer, or raises.
\<close>

record layer =
  weights :: "real list list"
  bias :: real
  input_dataset :: "real list"
  forward :: "real list list \<Rightarrow> real \<Rightarrow> real list \<Rightarrow> error + real list"

definition get_layer_dataset :: "layer \<Rightarrow> error + real list" where
  "get_layer_dataset layer =
     forward layer (weights layer) (bias layer) (input_dataset layer)"

text \<open>
  A procedure that mutates its argument returns the state it leaves behind together
  with its outcome, so the state at the moment of an exception is still there.

  Lines 110 to 114: \<^verbatim>\<open>regularization_term\<close> starts at \<^verbatim>\<open>0.0\<close> and each enabled flag
  adds its term.
\<close>

definition regularization_term ::
  "bool \<Rightarrow> bool \<Rightarrow> real \<Rightarrow> real list list \<Rightarrow> int \<Rightarrow> int \<Rightarrow> error + real" where
  "regularization_term lasso_regularization ridge_regularization regularization ws i j =
     (case (if lasso_regularization
            then (case get_lasso_regularization regularization ws i j of
                    Inl e \<Rightarrow> Inl e
                  | Inr a \<Rightarrow> Inr (0 + a))
            else Inr 0) of
        Inl e \<Rightarrow> Inl e
      | Inr t \<Rightarrow>
          (if ridge_regularization
           then (case get_ridge_regularization regularization ws i j of
                   Inl e \<Rightarrow> Inl e
                 | Inr b \<Rightarrow> Inr (t + b))
           else Inr t))"

text \<open>Lines 110 to 121: the body of the inner loop, at the entry \<open>(i, j)\<close>.\<close>

definition update_entry ::
  "real list \<Rightarrow> real \<Rightarrow> bool \<Rightarrow> bool \<Rightarrow> real \<Rightarrow> real \<Rightarrow> real list list \<Rightarrow> nat \<Rightarrow> nat
     \<Rightarrow> real list list \<times> error option" where
  "update_entry inp gradient lasso_regularization ridge_regularization learning_rate
       regularization ws i j =
     (case regularization_term lasso_regularization ridge_regularization regularization
             ws (int i) (int j) of
        Inl e \<Rightarrow> (ws, Some e)
      | Inr t \<Rightarrow>
          (case calculate_gradient_descent inp learning_rate (gradient + t) ws (int i) (int j) of
             Inl e \<Rightarrow> (ws, Some e)
           | Inr ws1 \<Rightarrow>
               (if \<not> lasso_regularization \<and> \<not> ridge_regularization
                then (case calculate_gradient_descent inp learning_rate gradient ws1
                             (int i) (int j) of
                        Inl e \<Rightarrow> (ws1, Some e)
                      | Inr ws2 \<Rightarrow> (ws2, None))
                else (ws1, None))))"

text \<open>\<^verbatim>\<open>for j in range(len(layer.weights[i]))\<close>, over the indices still to visit.\<close>

fun update_row ::
  "real list \<Rightarrow> real \<Rightarrow> bool \<Rightarrow> bool \<Rightarrow> real \<Rightarrow> real \<Rightarrow> real list list \<Rightarrow> nat \<Rightarrow> nat list
     \<Rightarrow> real list list \<times> error option" where
  "update_row inp gradient lasso ridge learning_rate regularization ws i [] = (ws, None)"
| "update_row inp gradient lasso ridge learning_rate regularization ws i (j # js) =
     (case update_entry inp gradient lasso ridge learning_rate regularization ws i j of
        (ws', Some e) \<Rightarrow> (ws', Some e)
      | (ws', None) \<Rightarrow>
          update_row inp gradient lasso ridge learning_rate regularization ws' i js)"

text \<open>\<^verbatim>\<open>for i in range(len(layer.weights))\<close>, over the rows still to visit.\<close>

fun update_rows ::
  "real list \<Rightarrow> real \<Rightarrow> bool \<Rightarrow> bool \<Rightarrow> real \<Rightarrow> real \<Rightarrow> real list list \<Rightarrow> nat list
     \<Rightarrow> real list list \<times> error option" where
  "update_rows inp gradient lasso ridge learning_rate regularization ws [] = (ws, None)"
| "update_rows inp gradient lasso ridge learning_rate regularization ws (i # is) =
     (case py_index ws (int i) of
        Inl e \<Rightarrow> (ws, Some e)
      | Inr row \<Rightarrow>
          (case update_row inp gradient lasso ridge learning_rate regularization ws i
                  [0..<length row] of
             (ws', Some e) \<Rightarrow> (ws', Some e)
           | (ws', None) \<Rightarrow>
               update_rows inp gradient lasso ridge learning_rate regularization ws' is))"

text \<open>
  \<^verbatim>\<open>update_weights(self, layer, gradient, lasso_regularization, ridge_regularization,
  learning_rate, regularization)\<close>: the two loops, then \<^verbatim>\<open>layer.bias -= learning_rate * gradient\<close>.
\<close>

definition update_weights ::
  "layer \<Rightarrow> real \<Rightarrow> bool \<Rightarrow> bool \<Rightarrow> real \<Rightarrow> real \<Rightarrow> layer \<times> error option" where
  "update_weights layer gradient lasso_regularization ridge_regularization learning_rate
       regularization =
     (case update_rows (input_dataset layer) gradient lasso_regularization
             ridge_regularization learning_rate regularization (weights layer)
             [0..<length (weights layer)] of
        (ws, Some e) \<Rightarrow> (layer\<lparr>weights := ws\<rparr>, Some e)
      | (ws, None) \<Rightarrow>
          (layer\<lparr>weights := ws, bias := bias layer - learning_rate * gradient\<rparr>, None))"

text \<open>
  What lines 110 to 121 leave at an entry that held \<open>w\<close>, with \<open>x\<close> the input of its
  column: the step with the regularised gradient, and with both flags off the step with
  the plain gradient after it.
\<close>

definition entry_update :: "bool \<Rightarrow> bool \<Rightarrow> real \<Rightarrow> real \<Rightarrow> real \<Rightarrow> real \<Rightarrow> real \<Rightarrow> real" where
  "entry_update lasso ridge learning_rate regularization gradient w x =
     (let t = (if lasso then regularization * (if w > 0 then 1 else - 1) else 0)
              + (if ridge then regularization * w else 0);
          w1 = w - learning_rate * (gradient + t) * x
      in if \<not> lasso \<and> \<not> ridge then w1 - learning_rate * gradient * x else w1)"

section \<open>The data access of \<^verbatim>\<open>Data\<close>\<close>

text \<open>
  \<^verbatim>\<open>dataset\<close> is the document read from the JSON file: a dictionary from a data name to
  a category. The repository uses two shapes of a category: a dictionary from the name of
  an image class to the list of its samples (what \<^verbatim>\<open>get_data_dict\<close> reads with
  \<^verbatim>\<open>.get\<close>), and a list of keys (the dataset of the tests). A dictionary is the list of
  its items in insertion order; its keys are distinct. A sample is a list of numbers.
  The record holds the attributes as the methods read them; it is the argument \<open>d\<close>
  that stands for \<^verbatim>\<open>self\<close> and \<^verbatim>\<open>cls\<close>.
\<close>

datatype category = Classes "(string \<times> real list list) list" | Entries "string list"

record data =
  data_name :: string
  data_class_name :: int
  data_number :: int
  dataset :: "(string \<times> category) list"

text \<open>\<^verbatim>\<open>str(n)\<close> of an integer: its decimal digits, after a minus sign when negative.\<close>

fun digits :: "nat \<Rightarrow> string" where
  "digits n =
     (if n < 10 then [''0123456789'' ! n]
      else digits (n div 10) @ [''0123456789'' ! (n mod 10)])"

declare digits.simps [simp del]

definition str :: "int \<Rightarrow> string" where
  "str i = (if i < 0 then CHR ''-'' # digits (nat (- i)) else digits (nat i))"

text \<open>
  \<^verbatim>\<open>dict(list(enumerate(cls.dataset[cls.data_name].get(str(cls.data_class_name), []), 1)))\<close>:
  a missing data name raises \<^verbatim>\<open>KeyError\<close>, a list has no \<^verbatim>\<open>get\<close>.
\<close>

definition get_data_dict :: "data \<Rightarrow> error + (int \<times> real list) list" where
  "get_data_dict d =
     (case map_of (dataset d) (data_name d) of
        None \<Rightarrow> Inl KeyError
      | Some (Entries ks) \<Rightarrow> Inl AttributeError
      | Some (Classes cs) \<Rightarrow>
          (let samples = (case map_of cs (str (data_class_name d)) of
                            None \<Rightarrow> []
                          | Some xs \<Rightarrow> xs)
           in Inr (zip [1..int (length samples)] samples)))"

text \<open>\<^verbatim>\<open>self.get_data_dict().get(self.data_number)\<close>, and \<^verbatim>\<open>ValueError\<close> when that is \<^verbatim>\<open>None\<close>.\<close>

definition get_data_sample :: "data \<Rightarrow> error + real list" where
  "get_data_sample d =
     (case get_data_dict d of
        Inl e \<Rightarrow> Inl e
      | Inr data_dict \<Rightarrow>
          (case map_of data_dict (data_number d) of
             None \<Rightarrow> Inl ValueError
           | Some result \<Rightarrow> Inr result))"

text \<open>
  \<^verbatim>\<open>data_dict = [key for key in self.get_data_dict()]; return data_dict[data_number - 1] / 10\<close>.
  The parameter \<^verbatim>\<open>data_number\<close> is written \<open>number\<close>, the attribute of the same name
  being a field of the record.
\<close>

definition get_normalized_target_value :: "data \<Rightarrow> int \<Rightarrow> error + real" where
  "get_normalized_target_value d number =
     (case get_data_dict d of
        Inl e \<Rightarrow> Inl e
      | Inr data_dict \<Rightarrow>
          (case py_index (map fst data_dict) (number - 1) of
             Inl e \<Rightarrow> Inl e
           | Inr key \<Rightarrow> Inr (real_of_int key / 10)))"

text \<open>The results of a comprehension, in order, up to the first element that raises.\<close>

fun collect :: "(error + 'a) list \<Rightarrow> error + 'a list" where
  "collect [] = Inr []"
| "collect (Inl e # rs) = Inl e"
| "collect (Inr x # rs) = (case collect rs of Inl e \<Rightarrow> Inl e | Inr xs \<Rightarrow> Inr (x # xs))"

text \<open>\<^verbatim>\<open>for key in self.dataset[self.data_name]\<close>: the keys of a dictionary, the elements of a list.\<close>

definition category_keys :: "category \<Rightarrow> string list" where
  "category_keys c = (case c of Classes cs \<Rightarrow> map fst cs | Entries ks \<Rightarrow> ks)"

text \<open>
  \<^verbatim>\<open>target_values = {key: float(key) / 10 for key in self.dataset[self.data_name]}\<close> and
  \<^verbatim>\<open>target_values.get(value_by_key, 0.0)\<close>. The builtin \<^verbatim>\<open>float\<close> is a parameter. In
  the dictionary a later item with the same key replaces an earlier one.
\<close>

definition get_target_value_by_key ::
  "(string \<Rightarrow> error + real) \<Rightarrow> data \<Rightarrow> string \<Rightarrow> error + real" where
  "get_target_value_by_key float d value_by_key =
     (case map_of (dataset d) (data_name d) of
        None \<Rightarrow> Inl KeyError
      | Some c \<Rightarrow>
          (case collect (map (\<lambda>key. case float key of
                                       Inl e \<Rightarrow> Inl e
                                     | Inr v \<Rightarrow> Inr (key, v / 10)) (category_keys c)) of
             Inl e \<Rightarrow> Inl e
           | Inr target_values \<Rightarrow>
               Inr (case map_of (rev target_values) value_by_key of
                      None \<Rightarrow> 0
                    | Some v \<Rightarrow> v)))"

section \<open>\<^verbatim>\<open>train\<close>\<close>

text \<open>
  What is printed is part of the state: the console is the list of the reports so far. A
  report holds the numbers its line shows, \<^verbatim>\<open>EpochReport\<close> the epoch, the error in
  percent, ten times the prediction and the sum of the outputs of the layer,
  \<^verbatim>\<open>SampleReport\<close> the data number and ten times the sum of the outputs.
\<close>

datatype event = EpochReport int real real real | SampleReport int real

text \<open>
  \<^verbatim>\<open>__get_train_visualisation\<close>: every hundredth epoch, the error, the prediction and
  the outputs of the layer after the update.
\<close>

definition get_train_visualisation :: "int \<Rightarrow> real \<Rightarrow> real \<Rightarrow> layer \<Rightarrow> error + event list" where
  "get_train_visualisation epoch prediction target layer =
     (if epoch mod 100 = 0
      then (case calculate_error prediction target of
              Inl e \<Rightarrow> Inl e
            | Inr err \<Rightarrow>
                (case get_layer_dataset layer of
                   Inl e \<Rightarrow> Inl e
                 | Inr ys \<Rightarrow> Inr [EpochReport epoch err (prediction * 10) (sum_list ys)]))
      else Inr [])"

text \<open>
  Lines 158 to 168, the body of the loop of \<^verbatim>\<open>train\<close>, on the layer, the learning rate
  and the console. The outcome is the exception raised, or whether the body returned.
\<close>

definition train_epoch ::
  "data \<Rightarrow> int \<Rightarrow> int \<Rightarrow> real \<Rightarrow> real \<Rightarrow> real \<Rightarrow> bool \<Rightarrow> bool \<Rightarrow> int
     \<Rightarrow> layer \<times> real \<times> event list \<Rightarrow> (layer \<times> real \<times> event list) \<times> (error + bool)" where
  "train_epoch d number epochs learning_decay error_tolerance regularization
       lasso_regularization ridge_regularization epoch st =
     (case st of (layer, learning_rate, out) \<Rightarrow>
        (case get_data_sample d of
           Inl e \<Rightarrow> (st, Inl e)
         | Inr sample \<Rightarrow>
             (let layer1 = layer\<lparr>input_dataset := sample\<rparr> in
              case get_layer_dataset layer1 of
                Inl e \<Rightarrow> ((layer1, learning_rate, out), Inl e)
              | Inr ys \<Rightarrow>
                  (let prediction = sum_list ys in
                   case get_normalized_target_value d number of
                     Inl e \<Rightarrow> ((layer1, learning_rate, out), Inl e)
                   | Inr target \<Rightarrow>
                       (let gradient = prediction - target in
                        case update_weights layer1 gradient lasso_regularization
                               ridge_regularization learning_rate regularization of
                          (layer2, Some e) \<Rightarrow> ((layer2, learning_rate, out), Inl e)
                        | (layer2, None) \<Rightarrow>
                            (case get_train_visualisation epoch prediction target layer2 of
                               Inl e \<Rightarrow> ((layer2, learning_rate, out), Inl e)
                             | Inr printed \<Rightarrow>
                                 (case calculate_learning_decay epoch epochs learning_rate
                                         learning_decay of
                                    Inl e \<Rightarrow> ((layer2, learning_rate, out @ printed), Inl e)
                                  | Inr learning_rate' \<Rightarrow>
                                      ((layer2, learning_rate', out @ printed),
                                       Inr (\<bar>prediction - target\<bar> < error_tolerance)))))))))"

text \<open>
  \<^verbatim>\<open>for epoch in range(epochs)\<close>, over the epochs still to run. The loop that ends
  without a return gives \<^verbatim>\<open>None\<close>.
\<close>

fun train_loop ::
  "data \<Rightarrow> int \<Rightarrow> int \<Rightarrow> real \<Rightarrow> real \<Rightarrow> real \<Rightarrow> bool \<Rightarrow> bool \<Rightarrow> int list
     \<Rightarrow> layer \<times> real \<times> event list
     \<Rightarrow> (layer \<times> real \<times> event list) \<times> (error + (real list list \<times> real) option)" where
  "train_loop d number epochs learning_decay error_tolerance regularization lasso ridge [] st =
     (st, Inr None)"
| "train_loop d number epochs learning_decay error_tolerance regularization lasso ridge
       (epoch # rest) st =
     (case train_epoch d number epochs learning_decay error_tolerance regularization lasso
             ridge epoch st of
        (st', Inl e) \<Rightarrow> (st', Inl e)
      | (st', Inr stop) \<Rightarrow>
          (if stop then (st', Inr (Some (weights (fst st'), bias (fst st'))))
           else train_loop d number epochs learning_decay error_tolerance regularization
                  lasso ridge rest st'))"

text \<open>
  \<^verbatim>\<open>train(self, data_number, layer, epochs, learning_rate, learning_decay, error_tolerance,
  regularization, lasso_regularization, ridge_regularization)\<close>, with the console as the
  last argument. It returns the layer and the console it leaves, and its outcome.
\<close>

definition train ::
  "data \<Rightarrow> int \<Rightarrow> layer \<Rightarrow> int \<Rightarrow> real \<Rightarrow> real \<Rightarrow> real \<Rightarrow> real \<Rightarrow> bool \<Rightarrow> bool \<Rightarrow> event list
     \<Rightarrow> (layer \<times> event list) \<times> (error + (real list list \<times> real) option)" where
  "train d number layer epochs learning_rate learning_decay error_tolerance regularization
       lasso_regularization ridge_regularization out =
     (case train_loop d number epochs learning_decay error_tolerance regularization
             lasso_regularization ridge_regularization (map int [0..<nat epochs])
             (layer, learning_rate, out) of
        ((layer', learning_rate', out'), r) \<Rightarrow> ((layer', out'), r))"

text \<open>
  Two notions to state what \<^verbatim>\<open>train\<close> returns. \<open>within_tolerance\<close>: on the current
  sample the sum of the outputs of the layer is closer to the target than the tolerance.
  \<open>after_epochs\<close>: the state after the bodies of the given epochs, one after the other.
\<close>

definition within_tolerance :: "data \<Rightarrow> int \<Rightarrow> real \<Rightarrow> layer \<Rightarrow> bool" where
  "within_tolerance d number error_tolerance layer =
     (case get_data_sample d of
        Inl e \<Rightarrow> False
      | Inr sample \<Rightarrow>
          (case get_layer_dataset (layer\<lparr>input_dataset := sample\<rparr>) of
             Inl e \<Rightarrow> False
           | Inr ys \<Rightarrow>
               (case get_normalized_target_value d number of
                  Inl e \<Rightarrow> False
                | Inr target \<Rightarrow> \<bar>sum_list ys - target\<bar> < error_tolerance)))"

definition after_epochs ::
  "data \<Rightarrow> int \<Rightarrow> int \<Rightarrow> real \<Rightarrow> real \<Rightarrow> real \<Rightarrow> bool \<Rightarrow> bool \<Rightarrow> int list
     \<Rightarrow> layer \<times> real \<times> event list \<Rightarrow> layer \<times> real \<times> event list" where
  "after_epochs d number epochs learning_decay error_tolerance regularization lasso ridge es st =
     fold (\<lambda>epoch s. fst (train_epoch d number epochs learning_decay error_tolerance
                            regularization lasso ridge epoch s)) es st"

section \<open>\<^verbatim>\<open>train_layers_on_dataset\<close>\<close>

text \<open>
  \<^verbatim>\<open>_save_weights_and_biases\<close> pickles \<^verbatim>\<open>{'weights': weights, 'biases': biases}\<close> into
  a file and logs a failure of the write instead of raising it. The model keeps the
  object that is handed to \<^verbatim>\<open>pickle.dump\<close>.
\<close>

record persisted =
  saved_weights :: "(string \<times> real list list) list"
  saved_biases :: "(string \<times> real) list"

definition save_weights_and_biases ::
  "(string \<times> real list list) list \<Rightarrow> (string \<times> real) list \<Rightarrow> persisted" where
  "save_weights_and_biases ws bs = \<lparr>saved_weights = ws, saved_biases = bs\<rparr>"

text \<open>\<^verbatim>\<open>__get_train_layers_on_dataset_visualisation\<close>: the line printed after a sample.\<close>

definition get_train_layers_on_dataset_visualisation :: "int \<Rightarrow> layer \<Rightarrow> error + event list" where
  "get_train_layers_on_dataset_visualisation number output_outer_layer =
     (case get_layer_dataset output_outer_layer of
        Inl e \<Rightarrow> Inl e
      | Inr ys \<Rightarrow> Inr [SampleReport number (sum_list ys * 10)])"

text \<open>
  Lines 207 to 226, the body of the loop, on the three layers, the data number and the
  console. The value \<^verbatim>\<open>train\<close> returns is not used.
\<close>

definition train_sample ::
  "data \<Rightarrow> int \<Rightarrow> real \<Rightarrow> real \<Rightarrow> real \<Rightarrow> real \<Rightarrow> bool \<Rightarrow> bool
     \<Rightarrow> layer \<times> layer \<times> layer \<times> int \<times> event list
     \<Rightarrow> (layer \<times> layer \<times> layer \<times> int \<times> event list) \<times> error option" where
  "train_sample d epochs learning_rate learning_decay error_tolerance regularization
       lasso_regularization ridge_regularization st =
     (case st of (hidden_layer_first, hidden_layer_second, output_outer_layer, number, out) \<Rightarrow>
        (case get_data_sample d of
           Inl e \<Rightarrow> (st, Some e)
         | Inr sample \<Rightarrow>
             (case train d number (hidden_layer_first\<lparr>input_dataset := sample\<rparr>) epochs learning_rate
                     learning_decay error_tolerance regularization lasso_regularization
                     ridge_regularization out of
                ((hidden_layer_first', out1), Inl e) \<Rightarrow> ((hidden_layer_first', hidden_layer_second, output_outer_layer, number, out1), Some e)
              | ((hidden_layer_first', out1), Inr r1) \<Rightarrow>
                  (case get_layer_dataset hidden_layer_first' of
                     Inl e \<Rightarrow> ((hidden_layer_first', hidden_layer_second, output_outer_layer, number, out1), Some e)
                   | Inr ys1 \<Rightarrow>
                       (case train d number (hidden_layer_second\<lparr>input_dataset := ys1\<rparr>) epochs learning_rate
                               learning_decay error_tolerance regularization
                               lasso_regularization ridge_regularization out1 of
                          ((hidden_layer_second', out2), Inl e) \<Rightarrow> ((hidden_layer_first', hidden_layer_second', output_outer_layer, number, out2), Some e)
                        | ((hidden_layer_second', out2), Inr r2) \<Rightarrow>
                            (case get_layer_dataset hidden_layer_second' of
                               Inl e \<Rightarrow> ((hidden_layer_first', hidden_layer_second', output_outer_layer, number, out2), Some e)
                             | Inr ys2 \<Rightarrow>
                                 (case train d number (output_outer_layer\<lparr>input_dataset := ys2\<rparr>) epochs
                                         learning_rate learning_decay error_tolerance
                                         regularization lasso_regularization
                                         ridge_regularization out2 of
                                    ((output_outer_layer', out3), Inl e) \<Rightarrow>
                                      ((hidden_layer_first', hidden_layer_second', output_outer_layer', number, out3), Some e)
                                  | ((output_outer_layer', out3), Inr r3) \<Rightarrow>
                                      (case get_train_layers_on_dataset_visualisation number output_outer_layer' of
                                         Inl e \<Rightarrow> ((hidden_layer_first', hidden_layer_second', output_outer_layer', number, out3), Some e)
                                       | Inr printed \<Rightarrow>
                                           ((hidden_layer_first', hidden_layer_second', output_outer_layer', number + 1, out3 @ printed),
                                            None)))))))))"

text \<open>\<^verbatim>\<open>for i in range(len(self.dataset[self.data_name]))\<close>, over the indices still to run.\<close>

fun train_samples ::
  "data \<Rightarrow> int \<Rightarrow> real \<Rightarrow> real \<Rightarrow> real \<Rightarrow> real \<Rightarrow> bool \<Rightarrow> bool \<Rightarrow> nat list
     \<Rightarrow> layer \<times> layer \<times> layer \<times> int \<times> event list
     \<Rightarrow> (layer \<times> layer \<times> layer \<times> int \<times> event list) \<times> error option" where
  "train_samples d epochs learning_rate learning_decay error_tolerance regularization lasso
       ridge [] st = (st, None)"
| "train_samples d epochs learning_rate learning_decay error_tolerance regularization lasso
       ridge (i # is) st =
     (case train_sample d epochs learning_rate learning_decay error_tolerance regularization
             lasso ridge st of
        (st', Some e) \<Rightarrow> (st', Some e)
      | (st', None) \<Rightarrow>
          train_samples d epochs learning_rate learning_decay error_tolerance regularization
            lasso ridge is st')"

text \<open>
  \<^verbatim>\<open>train_layers_on_dataset(self, data_number, hidden_layer_first, hidden_layer_second,
  output_outer_layer, epochs, learning_rate, learning_decay, error_tolerance, regularization,
  lasso_regularization, ridge_regularization)\<close>, with the console as the last argument.
\<close>

definition train_layers_on_dataset ::
  "data \<Rightarrow> int \<Rightarrow> layer \<Rightarrow> layer \<Rightarrow> layer \<Rightarrow> int \<Rightarrow> real \<Rightarrow> real \<Rightarrow> real \<Rightarrow> real \<Rightarrow> bool \<Rightarrow> bool
     \<Rightarrow> event list \<Rightarrow> (layer \<times> layer \<times> layer \<times> event list) \<times> (error + persisted)" where
  "train_layers_on_dataset d number hidden_layer_first hidden_layer_second output_outer_layer
       epochs learning_rate learning_decay error_tolerance regularization
       lasso_regularization ridge_regularization out =
     (case map_of (dataset d) (data_name d) of
        None \<Rightarrow>
          ((hidden_layer_first, hidden_layer_second, output_outer_layer, out), Inl KeyError)
      | Some c \<Rightarrow>
          (case train_samples d epochs learning_rate learning_decay error_tolerance
                  regularization lasso_regularization ridge_regularization
                  [0..<length (category_keys c)]
                  (hidden_layer_first, hidden_layer_second, output_outer_layer, number, out) of
             ((hidden_layer_first', hidden_layer_second', output_outer_layer', number', out'), Some e) \<Rightarrow> ((hidden_layer_first', hidden_layer_second', output_outer_layer', out'), Inl e)
           | ((hidden_layer_first', hidden_layer_second', output_outer_layer', number', out'), None) \<Rightarrow>
               ((hidden_layer_first', hidden_layer_second', output_outer_layer', out'),
                Inr (save_weights_and_biases
                       [(''hidden_layer_first'', weights hidden_layer_first'),
                        (''hidden_layer_second'', weights hidden_layer_second'),
                        (''output_outer_layer'', weights output_outer_layer')]
                       [(''hidden_layer_first'', bias hidden_layer_first'),
                        (''hidden_layer_second'', bias hidden_layer_second'),
                        (''output_outer_layer'', bias output_outer_layer')]))))"

section \<open>Concrete layers, datasets and a number parser\<close>

text \<open>
  Modelled from the spec: the forward computation of a layer, which \<^verbatim>\<open>layers.py\<close>
  (not among the sources) implements. The spec gives it as: for each neuron \<open>n\<close>,
  \<open>sum(weights[n][k] * input_dataset[k] for k) + bias\<close>, then the activation. Here the
  activation is the linear one and every neuron is enabled. It serves the concrete runs
  below only.
\<close>

definition linear_forward :: "real list list \<Rightarrow> real \<Rightarrow> real list \<Rightarrow> error + real list" where
  "linear_forward ws b xs = Inr (map (\<lambda>row. sum_list (map2 (*) row xs) + b) ws)"

text \<open>
  \<^verbatim>\<open>float\<close> on a string of decimal digits. The builtin reads more spellings of a
  number; this function stands for it at keys made of digits.
\<close>

definition digit_of :: "char \<Rightarrow> nat option" where
  "digit_of c =
     (let k = (of_char c :: nat) in if 48 \<le> k \<and> k \<le> 57 then Some (k - 48) else None)"

fun decimal :: "nat \<Rightarrow> string \<Rightarrow> nat option" where
  "decimal acc [] = Some acc"
| "decimal acc (c # cs) =
     (case digit_of c of None \<Rightarrow> None | Some k \<Rightarrow> decimal (10 * acc + k) cs)"

definition float_of_digits :: "string \<Rightarrow> error + real" where
  "float_of_digits s =
     (if s = [] then Inl ValueError
      else (case decimal 0 s of None \<Rightarrow> Inl ValueError | Some n \<Rightarrow> Inr (real n)))"

text \<open>The dataset of the tests, \<^verbatim>\<open>{'cube': ['1', '2', '3', '4', '5', '6']}\<close>.\<close>

definition cube :: data where
  "cube = \<lparr>data_name = ''cube'', data_class_name = 1, data_number = 1,
      dataset = [(''cube'', Entries [''1'', ''2'', ''3'', ''4'', ''5'', ''6''])]\<rparr>"

text \<open>A dataset with two classes; class 1 has the samples \<open>[1, 2]\<close> and \<open>[3, 4]\<close>.\<close>

definition faces :: data where
  "faces = \<lparr>data_name = ''cube'', data_class_name = 1, data_number = 1,
      dataset = [(''cube'', Classes [(''1'', [[1, 2], [3, 4]]), (''2'', [[5, 6]])])]\<rparr>"

definition l0 :: layer where
  "l0 = \<lparr>weights = [[0, 0]], bias = 0, input_dataset = [], forward = linear_forward\<rparr>"

text \<open>A dataset with one class of one sample, \<^verbatim>\<open>{'cube': {'1': [[1.0, 2.0]]}}\<close>.\<close>

definition one_face :: data where
  "one_face = \<lparr>data_name = ''cube'', data_class_name = 1, data_number = 1,
      dataset = [(''cube'', Classes [(''1'', [[1, 2]])])]\<rparr>"

text \<open>A layer of \<open>n\<close> neurons on two inputs, all weights and the bias zero.\<close>

definition blank :: "nat \<Rightarrow> layer" where
  "blank n = \<lparr>weights = replicate n [0, 0], bias = 0, input_dataset = [],
      forward = linear_forward\<rparr>"

section \<open>Properties of the scalar helpers\<close>

lemma py_index_nat:
  "py_index xs (int k) = (if k < length xs then Inr (xs ! k) else Inl IndexError)"
  by (simp add: py_index_def Let_def)

lemma py_store_nat:
  "py_store xs (int k) v = (if k < length xs then Inr (xs[k := v]) else Inl IndexError)"
  by (simp add: py_store_def Let_def)

text \<open>
  Claim C7. For every predicted value and every target other than zero,
  \<^verbatim>\<open>_calculate_error\<close> returns \<open>((predicted - target) / target) * 100\<close>, and it raises
  \<^verbatim>\<open>ZeroDivisionError\<close> exactly when the target is zero.
\<close>

theorem calculate_error_value_and_fault:
  "(target \<noteq> 0 \<longrightarrow>
      calculate_error predicted target = Inr (((predicted - target) / target) * 100))
   \<and> ((\<exists>e. calculate_error predicted target = Inl e) \<longleftrightarrow> target = 0)
   \<and> (target = 0 \<longrightarrow> calculate_error predicted target = Inl ZeroDivisionError)"
  by (simp add: calculate_error_def)

text \<open>The scenario of the tests: predicted 110 against target 100 is an error of 10 percent.\<close>

theorem calculate_error_witness:
  "calculate_error 110 100 = Inr 10"
  using calculate_error_value_and_fault [of 100 110] by simp

text \<open>
  Claim C3, as the spec states it, gives \<open>+r\<close> at a weight of zero. The source tests
  \<^verbatim>\<open>weights[i][j] > 0\<close> and takes \<open>-1\<close> otherwise, so a zero weight gives \<open>-r\<close>.
\<close>

theorem lasso_zero_counterexample:
  "get_lasso_regularization 1 [[0]] 0 0 = Inr (- 1)
   \<and> get_lasso_regularization 1 [[0]] 0 0 \<noteq> Inr 1"
  by (simp add: get_lasso_regularization_def py_index_def)

text \<open>
  Claim C3, amended. For every regularization factor \<open>r\<close> and every entry \<open>(i, j)\<close> of the
  weight matrix, the Lasso term is \<open>+r\<close> when the weight is positive, \<open>-r\<close> when it is
  negative, and \<open>-r\<close> when it is zero.
\<close>

theorem lasso_sign:
  assumes "i < length ws" and "j < length (ws ! i)"
  shows "(ws ! i ! j > 0 \<longrightarrow> get_lasso_regularization r ws (int i) (int j) = Inr r)
       \<and> (ws ! i ! j < 0 \<longrightarrow> get_lasso_regularization r ws (int i) (int j) = Inr (- r))
       \<and> (ws ! i ! j = 0 \<longrightarrow> get_lasso_regularization r ws (int i) (int j) = Inr (- r))"
  using assms by (simp add: get_lasso_regularization_def py_index_nat)

theorem lasso_sign_witness:
  "get_lasso_regularization (1/1000) [[1/2, - 1/5], [4/5, - 2/5]] 0 0 = Inr (1/1000)
   \<and> get_lasso_regularization (1/1000) [[1/2, - 1/5], [4/5, - 2/5]] 0 1 = Inr (- (1/1000))
   \<and> get_lasso_regularization (1/1000) [[1/2, 0], [4/5, - 2/5]] 0 1 = Inr (- (1/1000))"
  using lasso_sign [of 0 "[[1/2, - 1/5], [4/5, - 2/5]]" 0 "1/1000"]
    lasso_sign [of 0 "[[1/2, - 1/5], [4/5, - 2/5]]" 1 "1/1000"]
    lasso_sign [of 0 "[[1/2, 0], [4/5, - 2/5]]" 1 "1/1000"]
  by simp

text \<open>
  Claim C5. With at least four epochs in total, the learning rate is multiplied by the
  decay factor once when the epoch is a nonzero multiple of \<^verbatim>\<open>epochs // 4\<close> and is
  returned unchanged for every other epoch; at epoch 5 of 20 the rate \<open>0.1\<close> with decay
  \<open>0.9\<close> becomes \<open>0.09\<close>, and at epoch 6 the rate \<open>0.09\<close> stays \<open>0.09\<close>.
\<close>

theorem learning_decay_quarters:
  assumes "4 \<le> epochs"
  shows "calculate_learning_decay epoch epochs learning_rate learning_decay =
           Inr (if epoch \<noteq> 0 \<and> (epochs div 4) dvd epoch
                then learning_rate * learning_decay else learning_rate)
       \<and> calculate_learning_decay 5 20 (1/10) (9/10) = Inr (9/100)
       \<and> calculate_learning_decay 6 20 (9/100) (9/10) = Inr (9/100)"
proof -
  from assms have q: "epochs div 4 \<noteq> 0" by presburger
  have "calculate_learning_decay epoch epochs learning_rate learning_decay =
           Inr (if epoch \<noteq> 0 \<and> (epochs div 4) dvd epoch
                then learning_rate * learning_decay else learning_rate)"
    using q by (auto simp add: calculate_learning_decay_def mod_eq_0_iff_dvd)
  moreover have "calculate_learning_decay 5 20 (1/10) (9/10) = Inr (9/100)"
    by (simp add: calculate_learning_decay_def)
  moreover have "calculate_learning_decay 6 20 (9/100) (9/10) = Inr (9/100)"
    by (simp add: calculate_learning_decay_def)
  ultimately show ?thesis by blast
qed

theorem learning_decay_quarters_witness:
  "calculate_learning_decay 10 20 (9/100) (9/10) = Inr (81/1000)
   \<and> calculate_learning_decay 11 20 (81/1000) (9/10) = Inr (81/1000)"
  using learning_decay_quarters [of 20 10 "9/100" "9/10"]
    learning_decay_quarters [of 20 11 "81/1000" "9/10"]
  by simp

text \<open>The decay raises exactly when the total number of epochs is 0, 1, 2 or 3.\<close>

lemma learning_decay_faults_iff:
  "(\<exists>e. calculate_learning_decay epoch epochs learning_rate learning_decay = Inl e)
     \<longleftrightarrow> 0 \<le> epochs \<and> epochs < 4"
proof -
  have "epochs div 4 = 0 \<longleftrightarrow> 0 \<le> epochs \<and> epochs < 4" by presburger
  then show ?thesis by (auto simp add: calculate_learning_decay_def)
qed

text \<open>
  Claim C2 asks that the decay does not fault when \<^verbatim>\<open>epochs // 4\<close> is zero and returns
  the rate unchanged. The source takes the modulo without a guard: with fewer than four
  epochs the call raises \<^verbatim>\<open>ZeroDivisionError\<close>, at epoch 0 as well.
\<close>

theorem learning_decay_faults_below_four_epochs:
  "calculate_learning_decay 0 3 (1/10) (9/10) = Inl ZeroDivisionError
   \<and> calculate_learning_decay 1 2 (1/10) (9/10) = Inl ZeroDivisionError
   \<and> calculate_learning_decay 0 1 (1/10) (9/10) = Inl ZeroDivisionError"
  by (simp add: calculate_learning_decay_def)

section \<open>Properties of \<^verbatim>\<open>update_weights\<close>\<close>

subsection \<open>The values it leaves\<close>

lemma regularization_term_nat:
  assumes "i < length ws" and "j < length (ws ! i)"
  shows "regularization_term lasso ridge reg ws (int i) (int j) =
           Inr ((if lasso then reg * (if ws ! i ! j > 0 then 1 else - 1) else 0)
                + (if ridge then reg * (ws ! i ! j) else 0))"
  using assms
  by (simp add: regularization_term_def get_lasso_regularization_def
      get_ridge_regularization_def py_index_nat)

lemma calculate_gradient_descent_nat:
  assumes "i < length ws" and "j < length (ws ! i)" and "j < length inp"
  shows "calculate_gradient_descent inp lr g ws (int i) (int j) =
           Inr (ws[i := (ws ! i)[j := ws ! i ! j - lr * g * inp ! j]])"
  using assms by (simp add: calculate_gradient_descent_def py_index_nat py_store_nat)

lemma update_entry_nat:
  assumes "i < length ws" and "j < length (ws ! i)" and "j < length inp"
  shows "update_entry inp g lasso ridge lr reg ws i j =
           (ws[i := (ws ! i)[j := entry_update lasso ridge lr reg g (ws ! i ! j) (inp ! j)]], None)"
  using assms
  by (simp add: update_entry_def regularization_term_nat calculate_gradient_descent_nat
      entry_update_def Let_def)

lemma update_row_append:
  "update_row inp g lasso ridge lr reg ws i (js @ ks) =
     (case update_row inp g lasso ridge lr reg ws i js of
        (ws', Some e) \<Rightarrow> (ws', Some e)
      | (ws', None) \<Rightarrow> update_row inp g lasso ridge lr reg ws' i ks)"
  by (induction js arbitrary: ws) (auto split: prod.splits option.splits)

lemma update_row_upt:
  assumes "i < length ws" and "n \<le> length (ws ! i)" and "length (ws ! i) \<le> length inp"
  shows "update_row inp g lasso ridge lr reg ws i [0..<n] =
           (ws[i := map (\<lambda>j. if j < n then entry_update lasso ridge lr reg g (ws ! i ! j) (inp ! j)
                               else ws ! i ! j) [0..<length (ws ! i)]], None)"
  using assms
proof (induction n)
  case 0
  have "map (\<lambda>j. ws ! i ! j) [0..<length (ws ! i)] = ws ! i" by (simp add: map_nth)
  then show ?case by simp
next
  case (Suc n)
  let ?f = "entry_update lasso ridge lr reg g"
  let ?r = "map (\<lambda>j. if j < n then ?f (ws ! i ! j) (inp ! j) else ws ! i ! j) [0..<length (ws ! i)]"
  from Suc have IH: "update_row inp g lasso ridge lr reg ws i [0..<n] = (ws[i := ?r], None)"
    by simp
  have n: "n < length (ws ! i)" "n < length inp" using Suc.prems by simp_all
  have step: "update_entry inp g lasso ridge lr reg (ws[i := ?r]) i n =
        ((ws[i := ?r])[i := ((ws[i := ?r]) ! i)[n := ?f ((ws[i := ?r]) ! i ! n) (inp ! n)]], None)"
    by (rule update_entry_nat) (use Suc.prems n in simp_all)
  have row: "?r[n := ?f (?r ! n) (inp ! n)] =
      map (\<lambda>j. if j < Suc n then ?f (ws ! i ! j) (inp ! j) else ws ! i ! j) [0..<length (ws ! i)]"
  proof (rule nth_equalityI)
    show "length (?r[n := ?f (?r ! n) (inp ! n)]) =
        length (map (\<lambda>j. if j < Suc n then ?f (ws ! i ! j) (inp ! j) else ws ! i ! j)
          [0..<length (ws ! i)])"
      by simp
  next
    fix k
    assume "k < length (?r[n := ?f (?r ! n) (inp ! n)])"
    then have k: "k < length (ws ! i)" by simp
    show "?r[n := ?f (?r ! n) (inp ! n)] ! k =
        map (\<lambda>j. if j < Suc n then ?f (ws ! i ! j) (inp ! j) else ws ! i ! j)
          [0..<length (ws ! i)] ! k"
    proof (cases "k = n")
      case True
      then show ?thesis using n by simp
    next
      case False
      then have "(k < Suc n) = (k < n)" by auto
      then show ?thesis using k False by (simp add: nth_list_update)
    qed
  qed
  have "update_row inp g lasso ridge lr reg ws i [0..<Suc n] =
        update_row inp g lasso ridge lr reg ws i ([0..<n] @ [n])"
    by simp
  also have "\<dots> = update_row inp g lasso ridge lr reg (ws[i := ?r]) i [n]"
    unfolding update_row_append IH by simp
  also have "\<dots> = ((ws[i := ?r])[i := ((ws[i := ?r]) ! i)[n := ?f ((ws[i := ?r]) ! i ! n) (inp ! n)]], None)"
    using step by simp
  also have "\<dots> = (ws[i := ?r[n := ?f (?r ! n) (inp ! n)]], None)"
    using Suc.prems(1) by simp
  finally show ?case
    unfolding row .
qed

lemma update_row_full:
  assumes "i < length ws" and "length (ws ! i) \<le> length inp"
  shows "update_row inp g lasso ridge lr reg ws i [0..<length (ws ! i)] =
           (ws[i := map2 (entry_update lasso ridge lr reg g) (ws ! i) inp], None)"
proof -
  have "map (\<lambda>j. if j < length (ws ! i)
                 then entry_update lasso ridge lr reg g (ws ! i ! j) (inp ! j)
                 else ws ! i ! j) [0..<length (ws ! i)] =
        map2 (entry_update lasso ridge lr reg g) (ws ! i) inp"
    using assms(2) by (auto intro!: nth_equalityI)
  with update_row_upt [OF assms(1) order_refl assms(2), of g lasso ridge lr reg]
  show ?thesis by simp
qed

lemma update_rows_append:
  "update_rows inp g lasso ridge lr reg ws (is @ ks) =
     (case update_rows inp g lasso ridge lr reg ws is of
        (ws', Some e) \<Rightarrow> (ws', Some e)
      | (ws', None) \<Rightarrow> update_rows inp g lasso ridge lr reg ws' ks)"
  by (induction "is" arbitrary: ws) (auto split: prod.splits option.splits sum.splits)

lemma update_rows_upt:
  assumes "m \<le> length ws" and "\<forall>row \<in> set ws. length row \<le> length inp"
  shows "update_rows inp g lasso ridge lr reg ws [0..<m] =
           (map (\<lambda>i. if i < m then map2 (entry_update lasso ridge lr reg g) (ws ! i) inp
                       else ws ! i) [0..<length ws], None)"
  using assms(1)
proof (induction m)
  case 0
  show ?case by (simp add: map_nth)
next
  case (Suc m)
  let ?f = "map2 (entry_update lasso ridge lr reg g)"
  let ?ws = "map (\<lambda>i. if i < m then ?f (ws ! i) inp else ws ! i) [0..<length ws]"
  from Suc have IH: "update_rows inp g lasso ridge lr reg ws [0..<m] = (?ws, None)"
    by simp
  have m: "m < length ws" using Suc.prems by simp
  then have at_m: "?ws ! m = ws ! m" by simp
  have len: "length (ws ! m) \<le> length inp" using assms(2) m by simp
  have row: "update_row inp g lasso ridge lr reg ?ws m [0..<length (ws ! m)] =
        (?ws[m := ?f (ws ! m) inp], None)"
    using update_row_full [of m ?ws inp g lasso ridge lr reg] m len at_m by simp
  have upd: "?ws[m := ?f (ws ! m) inp] =
      map (\<lambda>i. if i < Suc m then ?f (ws ! i) inp else ws ! i) [0..<length ws]"
  proof (rule nth_equalityI)
    show "length (?ws[m := ?f (ws ! m) inp]) =
        length (map (\<lambda>i. if i < Suc m then ?f (ws ! i) inp else ws ! i) [0..<length ws])"
      by simp
  next
    fix k
    assume "k < length (?ws[m := ?f (ws ! m) inp])"
    then have k: "k < length ws" by simp
    show "?ws[m := ?f (ws ! m) inp] ! k =
        map (\<lambda>i. if i < Suc m then ?f (ws ! i) inp else ws ! i) [0..<length ws] ! k"
    proof (cases "k = m")
      case True
      then show ?thesis using m by simp
    next
      case False
      then have "(k < Suc m) = (k < m)" by auto
      then show ?thesis using k False by (simp add: nth_list_update)
    qed
  qed
  have "update_rows inp g lasso ridge lr reg ws [0..<Suc m] =
        update_rows inp g lasso ridge lr reg ws ([0..<m] @ [m])"
    by simp
  also have "\<dots> = update_rows inp g lasso ridge lr reg ?ws [m]"
    unfolding update_rows_append IH by simp
  also have "\<dots> = (?ws[m := ?f (ws ! m) inp], None)"
    using m row by (simp add: py_index_nat)
  finally show ?case
    unfolding upd .
qed

lemma update_weights_shaped:
  assumes "\<forall>row \<in> set (weights l). length row \<le> length (input_dataset l)"
  shows "update_weights l g lasso ridge lr reg =
           (l\<lparr>weights := map (\<lambda>row. map2 (entry_update lasso ridge lr reg g) row (input_dataset l))
                             (weights l),
              bias := bias l - lr * g\<rparr>, None)"
proof -
  have "map (\<lambda>i. if i < length (weights l)
                 then map2 (entry_update lasso ridge lr reg g) (weights l ! i) (input_dataset l)
                 else weights l ! i) [0..<length (weights l)] =
        map (\<lambda>row. map2 (entry_update lasso ridge lr reg g) row (input_dataset l)) (weights l)"
    by (auto intro!: nth_equalityI)
  with update_rows_upt [OF order_refl assms, of g lasso ridge lr reg]
  show ?thesis by (simp add: update_weights_def)
qed

lemma update_weights_entry:
  assumes "\<forall>row \<in> set (weights l). length row \<le> length (input_dataset l)"
    and "i < length (weights l)" and "j < length (weights l ! i)"
  shows "weights (fst (update_weights l g lasso ridge lr reg)) ! i ! j =
           entry_update lasso ridge lr reg g (weights l ! i ! j) (input_dataset l ! j)"
proof -
  from assms(1,2) have "length (weights l ! i) \<le> length (input_dataset l)" by simp
  with assms(3) have "j < length (input_dataset l)" by simp
  with assms(2,3) show ?thesis
    by (simp add: update_weights_shaped [OF assms(1)])
qed

text \<open>
  With a regularisation flag on, an entry gets one step with the gradient plus the
  enabled terms, and the bias one step with the gradient alone.
\<close>

lemma update_weights_regularized:
  assumes "\<forall>row \<in> set (weights l). length row \<le> length (input_dataset l)"
    and "i < length (weights l)" and "j < length (weights l ! i)"
    and "lasso \<or> ridge"
  shows "weights (fst (update_weights l gradient lasso ridge learning_rate regularization)) ! i ! j
           = weights l ! i ! j
               - learning_rate
                 * (gradient
                    + ((if lasso then regularization * (if weights l ! i ! j > 0 then 1 else - 1)
                        else 0)
                       + (if ridge then regularization * (weights l ! i ! j) else 0)))
                 * input_dataset l ! j"
  using update_weights_entry [OF assms(1,2,3), of gradient lasso ridge learning_rate regularization]
    assms(4)
  by (auto simp add: entry_update_def)

lemma update_weights_bias:
  assumes "update_weights l gradient lasso ridge learning_rate regularization = (l', None)"
  shows "bias l' = bias l - learning_rate * gradient"
  using assms by (auto simp add: update_weights_def split: prod.splits option.splits)

text \<open>
  Claim C1 asks that with both flags off one call subtracts
  \<open>learning_rate * gradient * input_dataset[j]\<close> from an entry once. The source makes the
  step of lines 115 to 117 with a regularisation term of zero and then, under
  \<^verbatim>\<open>if not lasso_regularization and not ridge_regularization\<close>, the step of lines 119
  to 121 again: the product is subtracted twice.
\<close>

theorem update_weights_plain_gradient_twice:
  assumes "\<forall>row \<in> set (weights l). length row \<le> length (input_dataset l)"
    and "i < length (weights l)" and "j < length (weights l ! i)"
  shows "snd (update_weights l gradient False False learning_rate regularization) = None
       \<and> weights (fst (update_weights l gradient False False learning_rate regularization)) ! i ! j
           = weights l ! i ! j - learning_rate * gradient * input_dataset l ! j
               - learning_rate * gradient * input_dataset l ! j"
  using update_weights_entry [OF assms, of gradient False False learning_rate regularization]
  by (simp add: update_weights_shaped [OF assms(1)] entry_update_def)

text \<open>One weight of 1, input 1, gradient 1 and rate 1: one step would leave 0, the call leaves -1.\<close>

theorem update_weights_plain_gradient_twice_witness:
  "snd (update_weights \<lparr>weights = [[1]], bias = 0, input_dataset = [1],
          forward = (\<lambda>ws b xs. Inr [])\<rparr> 1 False False 1 0) = None
   \<and> weights (fst (update_weights \<lparr>weights = [[1]], bias = 0, input_dataset = [1],
          forward = (\<lambda>ws b xs. Inr [])\<rparr> 1 False False 1 0)) ! 0 ! 0 = - 1"
  using update_weights_plain_gradient_twice [of "\<lparr>weights = [[1]], bias = 0, input_dataset = [1],
          forward = (\<lambda>ws b xs. Inr [])\<rparr>" 0 0 1 1 0]
  by simp

text \<open>
  Claim C6 asks that every entry becomes
  \<open>weights[i][j] - learning_rate * (gradient + regularization_term) * input_dataset[j]\<close>
  and the bias \<open>bias - learning_rate * gradient\<close>. With a flag on that is
  \<open>update_weights_regularized\<close> and \<open>update_weights_bias\<close>. With both flags off the
  term is zero and the second step of lines 119 to 121 moves the entry once more: from
  \<open>[[0.5, 0.25]]\<close> on the input \<open>[1, 2]\<close>, gradient \<open>0.1\<close> and rate \<open>0.01\<close>, the claim
  gives \<open>[[0.499, 0.248]]\<close> and the call leaves \<open>[[0.498, 0.246]]\<close>.
\<close>

theorem update_weights_unregularized_example:
  "update_weights \<lparr>weights = [[1/2, 1/4]], bias = 1, input_dataset = [1, 2],
       forward = (\<lambda>ws b xs. Inr [])\<rparr> (1/10) False False (1/100) (1/1000)
     = (\<lparr>weights = [[249/500, 123/500]], bias = 999/1000, input_dataset = [1, 2],
         forward = (\<lambda>ws b xs. Inr [])\<rparr>, None)"
  by (simp add: update_weights_def update_entry_def regularization_term_def
      calculate_gradient_descent_def py_index_def py_store_def upt_rec)

subsection \<open>The shape it keeps\<close>

lemma py_store_length: "py_store xs i v = Inr ys \<Longrightarrow> length ys = length xs"
  by (auto simp add: py_store_def Let_def split: if_splits)

lemma py_store_shape:
  assumes "py_index ws i = Inr row" and "length row' = length row"
    and "py_store ws i row' = Inr ws'"
  shows "map length ws' = map length ws"
proof -
  let ?k = "nat (if i < 0 then int (length ws) + i else i)"
  from assms(1) have k: "?k < length ws" and row: "row = ws ! ?k"
    by (auto simp add: py_index_def Let_def split: if_splits)
  from assms(3) have ws': "ws' = ws[?k := row']"
    by (auto simp add: py_store_def Let_def split: if_splits)
  have "map length (ws[?k := row']) = (map length ws)[?k := length row']"
    by (simp add: map_update)
  also have "\<dots> = map length ws"
    using k row assms(2) by (simp add: list_update_same_conv)
  finally show ?thesis using ws' by simp
qed

lemma calculate_gradient_descent_shape:
  assumes "calculate_gradient_descent inp lr g ws i j = Inr ws'"
  shows "map length ws' = map length ws"
proof -
  from assms obtain row w x row' where
    "py_index ws i = Inr row" and "py_store row j (w - lr * g * x) = Inr row'"
    and "py_store ws i row' = Inr ws'"
    by (auto simp add: calculate_gradient_descent_def split: sum.splits)
  then show ?thesis
    using py_store_shape [of ws i row row' ws'] py_store_length [of row j _ row'] by simp
qed

lemma update_entry_shape:
  "map length (fst (update_entry inp g lasso ridge lr reg ws i j)) = map length ws"
  by (auto simp add: update_entry_def split: sum.splits
      dest!: calculate_gradient_descent_shape)

lemma update_row_shape:
  "map length (fst (update_row inp g lasso ridge lr reg ws i js)) = map length ws"
proof (induction js arbitrary: ws)
  case Nil
  show ?case by simp
next
  case (Cons j js)
  obtain ws' r where e: "update_entry inp g lasso ridge lr reg ws i j = (ws', r)"
    by (cases "update_entry inp g lasso ridge lr reg ws i j")
  with update_entry_shape [of inp g lasso ridge lr reg ws i j]
  have s: "map length ws' = map length ws" by simp
  show ?case
  proof (cases r)
    case None
    with e s Cons.IH [of ws'] show ?thesis by simp
  next
    case (Some a)
    with e s show ?thesis by simp
  qed
qed

lemma update_rows_shape:
  "map length (fst (update_rows inp g lasso ridge lr reg ws is)) = map length ws"
proof (induction "is" arbitrary: ws)
  case Nil
  show ?case by simp
next
  case (Cons i "is")
  show ?case
  proof (cases "py_index ws (int i)")
    case (Inl e)
    then show ?thesis by simp
  next
    case (Inr row)
    obtain ws' r where
      e: "update_row inp g lasso ridge lr reg ws i [0..<length row] = (ws', r)"
      by (cases "update_row inp g lasso ridge lr reg ws i [0..<length row]")
    with update_row_shape [of inp g lasso ridge lr reg ws i "[0..<length row]"]
    have s: "map length ws' = map length ws" by simp
    show ?thesis
    proof (cases r)
      case None
      with Inr e s Cons.IH [of ws'] show ?thesis by simp
    next
      case (Some a)
      with Inr e s show ?thesis by simp
    qed
  qed
qed

text \<open>
  Claim C10. \<^verbatim>\<open>update_weights\<close> keeps the shape of the weight matrix: after any call,
  one that raises included, the number of rows and the length of every row are what
  they were, and the input and the method of the layer are untouched.
\<close>

theorem update_weights_preserves_shape:
  "map length (weights (fst (update_weights l g lasso ridge lr reg))) = map length (weights l)
   \<and> length (weights (fst (update_weights l g lasso ridge lr reg))) = length (weights l)
   \<and> input_dataset (fst (update_weights l g lasso ridge lr reg)) = input_dataset l
   \<and> forward (fst (update_weights l g lasso ridge lr reg)) = forward l"
proof -
  obtain ws r where
    e: "update_rows (input_dataset l) g lasso ridge lr reg (weights l) [0..<length (weights l)]
          = (ws, r)"
    by (cases "update_rows (input_dataset l) g lasso ridge lr reg (weights l)
          [0..<length (weights l)]")
  with update_rows_shape [of "input_dataset l" g lasso ridge lr reg "weights l"
      "[0..<length (weights l)]"]
  have s: "map length ws = map length (weights l)" by simp
  then have "length ws = length (weights l)" by (rule map_eq_imp_length_eq)
  with e s show ?thesis by (cases r) (simp_all add: update_weights_def)
qed

section \<open>Properties of the data access\<close>

text \<open>
  Claim C9. With the dataset \<^verbatim>\<open>{'cube': ['1', '2', '3', '4', '5', '6']}\<close> and the data
  name \<^verbatim>\<open>'cube'\<close>, \<^verbatim>\<open>get_target_value_by_key\<close> returns \<open>float(key) / 10\<close> for every key
  of the dataset, \<open>0.3\<close> for \<^verbatim>\<open>'3'\<close> and \<open>0.6\<close> for \<^verbatim>\<open>'6'\<close>, and \<open>0.0\<close> for every
  other key, \<^verbatim>\<open>'10'\<close> among them. \<open>float\<close> is any function that reads the six keys as
  the numbers 1 to 6, as the builtin does.
\<close>

theorem target_value_by_key_cube:
  assumes "data_name d = ''cube''"
    and "dataset d = [(''cube'', Entries [''1'', ''2'', ''3'', ''4'', ''5'', ''6''])]"
    and "map float [''1'', ''2'', ''3'', ''4'', ''5'', ''6''] = [Inr 1, Inr 2, Inr 3, Inr 4, Inr 5, Inr 6]"
  shows "(key \<in> set [''1'', ''2'', ''3'', ''4'', ''5'', ''6''] \<longrightarrow>
            (\<exists>v. float key = Inr v \<and> get_target_value_by_key float d key = Inr (v / 10)))
       \<and> (key \<notin> set [''1'', ''2'', ''3'', ''4'', ''5'', ''6''] \<longrightarrow>
            get_target_value_by_key float d key = Inr 0)
       \<and> get_target_value_by_key float d ''3'' = Inr (3/10)
       \<and> get_target_value_by_key float d ''6'' = Inr (6/10)
       \<and> get_target_value_by_key float d ''10'' = Inr 0"
  using assms
  by (auto simp add: get_target_value_by_key_def category_keys_def)

theorem target_value_by_key_cube_witness:
  "get_target_value_by_key float_of_digits cube ''3'' = Inr (3/10)
   \<and> get_target_value_by_key float_of_digits cube ''6'' = Inr (6/10)
   \<and> get_target_value_by_key float_of_digits cube ''10'' = Inr 0
   \<and> get_target_value_by_key float_of_digits cube ''seven'' = Inr 0"
  using target_value_by_key_cube [of cube float_of_digits "''seven''"]
  by (simp add: cube_def float_of_digits_def digit_of_def)

section \<open>Properties of \<^verbatim>\<open>train\<close>\<close>

text \<open>The body of the loop returns exactly when the prediction is within the tolerance.\<close>

lemma train_epoch_flag:
  assumes "train_epoch d number epochs decay tol reg lasso ridge epoch st = (st', Inr b)"
  shows "b = within_tolerance d number tol (fst st)"
  using assms
  by (cases st)
    (auto simp add: train_epoch_def within_tolerance_def Let_def
      split: sum.splits prod.splits option.splits)

lemma after_epochs_Nil [simp]:
  "after_epochs d number epochs decay tol reg lasso ridge [] st = st"
  by (simp add: after_epochs_def)

lemma after_epochs_Cons [simp]:
  "after_epochs d number epochs decay tol reg lasso ridge (e # es) st =
     after_epochs d number epochs decay tol reg lasso ridge es
       (fst (train_epoch d number epochs decay tol reg lasso ridge e st))"
  by (simp add: after_epochs_def)

lemma train_loop_outcome:
  assumes "train_loop d number epochs decay tol reg lasso ridge es st = (st', Inr r)"
  shows "(case r of
            None \<Rightarrow>
              st' = after_epochs d number epochs decay tol reg lasso ridge es st
              \<and> (\<forall>k<length es. \<not> within_tolerance d number tol
                     (fst (after_epochs d number epochs decay tol reg lasso ridge (take k es) st)))
          | Some p \<Rightarrow>
              p = (weights (fst st'), bias (fst st'))
              \<and> (\<exists>k<length es.
                    within_tolerance d number tol
                      (fst (after_epochs d number epochs decay tol reg lasso ridge (take k es) st))
                    \<and> (\<forall>j<k. \<not> within_tolerance d number tol
                          (fst (after_epochs d number epochs decay tol reg lasso ridge (take j es) st)))
                    \<and> st' = after_epochs d number epochs decay tol reg lasso ridge
                               (take (Suc k) es) st))"
  using assms
proof (induction es arbitrary: st)
  case Nil
  then show ?case by auto
next
  case (Cons e es)
  let ?A = "after_epochs d number epochs decay tol reg lasso ridge"
  let ?W = "within_tolerance d number tol"
  obtain st1 o1 where
    ep: "train_epoch d number epochs decay tol reg lasso ridge e st = (st1, o1)"
    by (cases "train_epoch d number epochs decay tol reg lasso ridge e st")
  show ?case
  proof (cases o1)
    case (Inl err)
    with ep Cons.prems show ?thesis by simp
  next
    case (Inr stop)
    from train_epoch_flag [of d number epochs decay tol reg lasso ridge e st st1 stop] ep Inr
    have flag: "stop = ?W (fst st)" by simp
    show ?thesis
    proof (cases stop)
      case True
      with ep Inr Cons.prems have st': "st' = st1"
        and r: "r = Some (weights (fst st1), bias (fst st1))"
        by auto
      have "?W (fst (?A (take 0 (e # es)) st))" using flag True by simp
      moreover have "st' = ?A (take (Suc 0) (e # es)) st" using st' ep by simp
      ultimately show ?thesis using r st' by auto
    next
      case False
      with ep Inr Cons.prems
      have rest: "train_loop d number epochs decay tol reg lasso ridge es st1 = (st', Inr r)"
        by simp
      note IH = Cons.IH [OF rest]
      have st1: "st1 = fst (train_epoch d number epochs decay tol reg lasso ridge e st)"
        using ep by simp
      have shift: "\<And>k. ?A (take (Suc k) (e # es)) st = ?A (take k es) st1"
        using st1 by simp
      have zero: "\<not> ?W (fst (?A (take 0 (e # es)) st))" using flag False by simp
      show ?thesis
      proof (cases r)
        case None
        with IH have a: "st' = ?A es st1"
          and b: "\<forall>k<length es. \<not> ?W (fst (?A (take k es) st1))"
          by simp_all
        have "\<forall>k<length (e # es). \<not> ?W (fst (?A (take k (e # es)) st))"
        proof (intro allI impI)
          fix k assume k: "k < length (e # es)"
          show "\<not> ?W (fst (?A (take k (e # es)) st))"
          proof (cases k)
            case 0
            with zero show ?thesis by simp
          next
            case (Suc k')
            with k b shift [of k'] show ?thesis by simp
          qed
        qed
        moreover have "st' = ?A (e # es) st" using a st1 by simp
        ultimately show ?thesis using None by simp
      next
        case (Some p)
        with IH obtain k where p: "p = (weights (fst st'), bias (fst st'))"
          and k: "k < length es" and met: "?W (fst (?A (take k es) st1))"
          and before: "\<forall>j<k. \<not> ?W (fst (?A (take j es) st1))"
          and fin: "st' = ?A (take (Suc k) es) st1"
          by auto
        have nb: "\<forall>j<Suc k. \<not> ?W (fst (?A (take j (e # es)) st))"
        proof (intro allI impI)
          fix j assume j: "j < Suc k"
          show "\<not> ?W (fst (?A (take j (e # es)) st))"
          proof (cases j)
            case 0
            with zero show ?thesis by simp
          next
            case (Suc j')
            with j before shift [of j'] show ?thesis by simp
          qed
        qed
        have m: "?W (fst (?A (take (Suc k) (e # es)) st))"
          using met shift [of k] by simp
        have f: "st' = ?A (take (Suc (Suc k)) (e # es)) st"
          using fin shift [of "Suc k"] by simp
        have l: "Suc k < length (e # es)" using k by simp
        have "\<exists>k'<length (e # es).
                ?W (fst (?A (take k' (e # es)) st))
                \<and> (\<forall>j<k'. \<not> ?W (fst (?A (take j (e # es)) st)))
                \<and> st' = ?A (take (Suc k') (e # es)) st"
          using l m nb f by (intro exI [of _ "Suc k"] conjI)
        then show ?thesis unfolding Some option.case using p by (intro conjI)
      qed
    qed
  qed
qed

text \<open>
  With one, two or three epochs the decay step of epoch 0 raises, so the call raises
  there unless an earlier step of that epoch did.
\<close>

lemma train_epoch_raises_below_four_epochs:
  assumes "0 \<le> epochs" and "epochs < 4"
  shows "\<exists>e. snd (train_epoch d number epochs decay tol reg lasso ridge epoch st) = Inl e"
proof -
  from assms have "epochs div 4 = 0" by presburger
  then have "\<And>lr. calculate_learning_decay epoch epochs lr decay = Inl ZeroDivisionError"
    by (simp add: calculate_learning_decay_def)
  then show ?thesis
    by (cases st)
      (auto simp add: train_epoch_def Let_def split: sum.splits prod.splits option.splits)
qed

lemma train_raises_below_four_epochs:
  assumes "0 < epochs" and "epochs < 4"
  shows "\<exists>e. snd (train d number layer epochs learning_rate decay tol reg lasso ridge out)
           = Inl e"
proof -
  from assms(1) have es: "[0..<nat epochs] = 0 # [Suc 0..<nat epochs]"
    by (simp add: upt_rec)
  from assms obtain e where
    "snd (train_epoch d number epochs decay tol reg lasso ridge 0 (layer, learning_rate, out))
       = Inl e"
    using train_epoch_raises_below_four_epochs [of epochs d number decay tol reg lasso ridge 0
        "(layer, learning_rate, out)"]
    by auto
  then show ?thesis
    by (auto simp add: train_def es split: prod.splits sum.splits)
qed

text \<open>
  What a call that returns has returned. A returned pair is the weights and the bias of
  the layer as the call leaves it, and the call left in the first epoch whose prediction
  was within the tolerance of the target, after the update of that epoch. When no epoch
  of the run is within the tolerance, the loop has run all epochs and the result is
  \<^verbatim>\<open>None\<close>.
\<close>

theorem train_returns_at_first_epoch_within_tolerance:
  assumes "train d number l epochs learning_rate learning_decay error_tolerance regularization
             lasso ridge out = ((l', out'), Inr r)"
  shows "(case r of
            None \<Rightarrow>
              l' = fst (after_epochs d number epochs learning_decay error_tolerance
                          regularization lasso ridge (map int [0..<nat epochs])
                          (l, learning_rate, out))
              \<and> (\<forall>k<nat epochs. \<not> within_tolerance d number error_tolerance
                     (fst (after_epochs d number epochs learning_decay error_tolerance
                             regularization lasso ridge (map int [0..<k])
                             (l, learning_rate, out))))
          | Some p \<Rightarrow>
              p = (weights l', bias l')
              \<and> (\<exists>k<nat epochs.
                    within_tolerance d number error_tolerance
                      (fst (after_epochs d number epochs learning_decay error_tolerance
                              regularization lasso ridge (map int [0..<k])
                              (l, learning_rate, out)))
                    \<and> (\<forall>j<k. \<not> within_tolerance d number error_tolerance
                          (fst (after_epochs d number epochs learning_decay error_tolerance
                                  regularization lasso ridge (map int [0..<j])
                                  (l, learning_rate, out))))
                    \<and> l' = fst (after_epochs d number epochs learning_decay error_tolerance
                                   regularization lasso ridge (map int [0..<Suc k])
                                   (l, learning_rate, out))))"
proof -
  let ?es = "map int [0..<nat epochs]"
  let ?A = "after_epochs d number epochs learning_decay error_tolerance regularization lasso ridge"
  let ?W = "within_tolerance d number error_tolerance"
  let ?st = "(l, learning_rate, out)"
  obtain st' where
    loop: "train_loop d number epochs learning_decay error_tolerance regularization lasso ridge
             ?es ?st = (st', Inr r)"
    and l': "l' = fst st'"
    using assms by (auto simp add: train_def split: prod.splits)
  have tk: "\<And>k. k \<le> nat epochs \<Longrightarrow> take k ?es = map int [0..<k]"
    by (simp add: take_map min_def)
  note out = train_loop_outcome [OF loop]
  show ?thesis
  proof (cases r)
    case None
    with out have a: "st' = ?A ?es ?st"
      and b: "\<forall>k<length ?es. \<not> ?W (fst (?A (take k ?es) ?st))"
      by simp_all
    have "\<forall>k<nat epochs. \<not> ?W (fst (?A (map int [0..<k]) ?st))"
    proof (intro allI impI)
      fix k assume k: "k < nat epochs"
      with b have "\<not> ?W (fst (?A (take k ?es) ?st))" by simp
      with tk [of k] k show "\<not> ?W (fst (?A (map int [0..<k]) ?st))" by simp
    qed
    with a l' None show ?thesis by simp
  next
    case (Some p)
    with out obtain k where p: "p = (weights (fst st'), bias (fst st'))"
      and k: "k < length ?es" and met: "?W (fst (?A (take k ?es) ?st))"
      and before: "\<forall>j<k. \<not> ?W (fst (?A (take j ?es) ?st))"
      and fin: "st' = ?A (take (Suc k) ?es) ?st"
      by auto
    from k have kn: "k < nat epochs" by simp
    have m: "?W (fst (?A (map int [0..<k]) ?st))"
      using met tk [of k] kn by simp
    have nb: "\<forall>j<k. \<not> ?W (fst (?A (map int [0..<j]) ?st))"
    proof (intro allI impI)
      fix j assume j: "j < k"
      with before have "\<not> ?W (fst (?A (take j ?es) ?st))" by simp
      with tk [of j] j kn show "\<not> ?W (fst (?A (map int [0..<j]) ?st))" by simp
    qed
    have f: "l' = fst (?A (map int [0..<Suc k]) ?st)"
      using fin l' tk [of "Suc k"] kn by simp
    have "\<exists>k<nat epochs. ?W (fst (?A (map int [0..<k]) ?st))
            \<and> (\<forall>j<k. \<not> ?W (fst (?A (map int [0..<j]) ?st)))
            \<and> l' = fst (?A (map int [0..<Suc k]) ?st)"
      using kn m nb f by (intro exI [of _ k] conjI)
    then show ?thesis unfolding Some option.case using p l' by (intro conjI) simp
  qed
qed

text \<open>
  Two runs of four epochs on the first sample of \<open>faces\<close>, target \<open>0.1\<close>: with the
  tolerance \<open>0.08\<close> the call returns in epoch 1, with \<open>0.001\<close> it returns \<^verbatim>\<open>None\<close>.
\<close>

lemma faces_sample: "get_data_sample faces = Inr [1, 2]"
  by (simp add: get_data_sample_def get_data_dict_def faces_def str_def digits.simps upto.simps)

lemma faces_target: "get_normalized_target_value faces 1 = Inr (1/10)"
  by (simp add: get_normalized_target_value_def get_data_dict_def faces_def str_def digits.simps
      upto.simps py_index_def)

lemma train_faces_stops: "train faces 1 l0 4 (1/10) (9/10) (2/25) 0 False True [] =
   ((\<lparr>weights = [[7/500, 7/250]], bias = 7/500, input_dataset = [1, 2], forward = linear_forward\<rparr>,
     [EpochReport 0 (- 100) 0 (3/50)]), Inr (Some ([[7/500, 7/250]], 7/500)))"
  by (simp add: train_def train_epoch_def faces_sample faces_target l0_def get_layer_dataset_def
      linear_forward_def update_weights_def update_entry_def regularization_term_def
      get_ridge_regularization_def calculate_gradient_descent_def py_index_def py_store_def
      get_train_visualisation_def calculate_error_def calculate_learning_decay_def upt_rec)

lemma train_faces_exhausts: "train faces 1 l0 4 (1/10) (9/10) (1/1000) 0 False True [] =
   ((\<lparr>weights = [[50113/3125000, 50113/1562500]], bias = 50113/3125000, input_dataset = [1, 2],
       forward = linear_forward\<rparr>,
     [EpochReport 0 (- 100) 0 (3/50)]), Inr None)"
  by (simp add: train_def train_epoch_def faces_sample faces_target l0_def get_layer_dataset_def
      linear_forward_def update_weights_def update_entry_def regularization_term_def
      get_ridge_regularization_def calculate_gradient_descent_def py_index_def py_store_def
      get_train_visualisation_def calculate_error_def calculate_learning_decay_def upt_rec)

theorem train_returns_at_first_epoch_within_tolerance_witness:
  "(\<exists>k<nat 4.
      within_tolerance faces 1 (2/25)
        (fst (after_epochs faces 1 4 (9/10) (2/25) 0 False True (map int [0..<k]) (l0, 1/10, [])))
      \<and> \<lparr>weights = [[7/500, 7/250]], bias = 7/500, input_dataset = [1, 2],
           forward = linear_forward\<rparr>
          = fst (after_epochs faces 1 4 (9/10) (2/25) 0 False True (map int [0..<Suc k])
                  (l0, 1/10, [])))
   \<and> \<not> within_tolerance faces 1 (1/1000)
        (fst (after_epochs faces 1 4 (9/10) (1/1000) 0 False True (map int [0..<3]) (l0, 1/10, [])))"
  using train_returns_at_first_epoch_within_tolerance [OF train_faces_stops]
    train_returns_at_first_epoch_within_tolerance [OF train_faces_exhausts]
  by auto

text \<open>
  When a call returns. The target is a key of \<^verbatim>\<open>get_data_dict\<close> over ten, so it is
  positive and the error of the report is defined. With four epochs or more, a dataset
  that has the sample and the target, a forward computation that does not raise and
  rows no longer than the sample, no step of an epoch raises, and the call returns.
\<close>

lemma get_data_dict_keys:
  assumes "get_data_dict d = Inr data_dict"
  shows "\<forall>k \<in> set (map fst data_dict). 1 \<le> k"
proof -
  from assms obtain samples :: "real list list" where
    "data_dict = zip [1..int (length samples)] samples"
    by (auto simp add: get_data_dict_def Let_def split: option.splits category.splits)
  then have "set (map fst data_dict) \<subseteq> set [1..int (length samples)]"
    by (auto dest: set_zip_leftD)
  then show ?thesis by auto
qed

lemma py_index_in_set: "py_index xs i = Inr x \<Longrightarrow> x \<in> set xs"
  by (auto simp add: py_index_def Let_def split: if_splits)

lemma normalized_target_positive:
  assumes "get_normalized_target_value d number = Inr target"
  shows "0 < target"
proof -
  from assms obtain data_dict key where dd: "get_data_dict d = Inr data_dict"
    and key: "py_index (map fst data_dict) (number - 1) = Inr key"
    and t: "target = real_of_int key / 10"
    by (auto simp add: get_normalized_target_value_def split: sum.splits)
  from py_index_in_set [OF key] get_data_dict_keys [OF dd] have "1 \<le> key" by blast
  with t show ?thesis by simp
qed

lemma rows_within_cong:
  assumes "map length ws' = map length ws" and "\<forall>row \<in> set ws. length row \<le> n"
  shows "\<forall>row \<in> set ws'. length row \<le> (n::nat)"
proof -
  from assms(1) have "length ` set ws' = length ` set ws"
    by (metis set_map)
  with assms(2) show ?thesis by (metis (no_types, lifting) imageE imageI)
qed

lemma train_epoch_returns:
  assumes sample: "get_data_sample d = Inr sample"
    and target: "get_normalized_target_value d number = Inr target"
    and fw: "\<forall>ws b xs. \<exists>ys. forward layer ws b xs = Inr ys"
    and shape: "\<forall>row \<in> set (weights layer). length row \<le> length sample"
    and epochs: "epochs div 4 \<noteq> 0"
  shows "\<exists>layer' lr' out' stop.
           train_epoch d number epochs decay tol reg lasso ridge epoch (layer, lr, out)
             = ((layer', lr', out'), Inr stop)
           \<and> forward layer' = forward layer
           \<and> map length (weights layer') = map length (weights layer)"
proof -
  let ?l1 = "layer\<lparr>input_dataset := sample\<rparr>"
  from fw obtain ys where ys: "get_layer_dataset ?l1 = Inr ys"
    unfolding get_layer_dataset_def by (simp del: ex_simps) blast
  let ?g = "sum_list ys - target"
  let ?ws = "map (\<lambda>row. map2 (entry_update lasso ridge lr reg ?g) row sample) (weights layer)"
  let ?l2 = "?l1\<lparr>weights := ?ws, bias := bias ?l1 - lr * ?g\<rparr>"
  have upd: "update_weights ?l1 ?g lasso ridge lr reg = (?l2, None)"
    using update_weights_shaped [of ?l1 ?g lasso ridge lr reg] shape by simp
  from fw obtain zs where zs: "get_layer_dataset ?l2 = Inr zs"
    unfolding get_layer_dataset_def by (simp del: ex_simps) blast
  from normalized_target_positive [OF target] have "target \<noteq> 0" by simp
  then have "\<exists>printed. get_train_visualisation epoch (sum_list ys) target ?l2 = Inr printed"
    unfolding get_train_visualisation_def calculate_error_def zs by simp
  then obtain printed where
    vis: "get_train_visualisation epoch (sum_list ys) target ?l2 = Inr printed" ..
  from epochs have "\<exists>lr'. calculate_learning_decay epoch epochs lr decay = Inr lr'"
    by (simp add: calculate_learning_decay_def)
  then obtain lr' where
    dec: "calculate_learning_decay epoch epochs lr decay = Inr lr'" ..
  have run: "train_epoch d number epochs decay tol reg lasso ridge epoch (layer, lr, out)
      = ((?l2, lr', out @ printed), Inr (\<bar>sum_list ys - target\<bar> < tol))"
    using ys upd vis dec by (simp add: train_epoch_def sample target Let_def)
  have len: "map length ?ws = map length (weights layer)"
    using shape by (auto simp add: min_def)
  show ?thesis using run len by auto
qed

lemma train_loop_returns:
  assumes sample: "get_data_sample d = Inr sample"
    and target: "get_normalized_target_value d number = Inr target"
    and epochs: "epochs div 4 \<noteq> 0"
    and fw: "\<forall>ws b xs. \<exists>ys. forward layer ws b xs = Inr ys"
    and shape: "\<forall>row \<in> set (weights layer). length row \<le> length sample"
  shows "\<exists>st' r. train_loop d number epochs decay tol reg lasso ridge es (layer, lr, out)
           = (st', Inr r)"
  using fw shape
proof (induction es arbitrary: layer lr out)
  case Nil
  show ?case by simp
next
  case (Cons e es)
  from train_epoch_returns [OF sample target Cons.prems(1) Cons.prems(2) epochs,
      of decay tol reg lasso ridge e lr out]
  obtain layer' lr' out' stop where
    ep: "train_epoch d number epochs decay tol reg lasso ridge e (layer, lr, out)
           = ((layer', lr', out'), Inr stop)"
    and f: "forward layer' = forward layer"
    and s: "map length (weights layer') = map length (weights layer)"
    by blast
  show ?case
  proof (cases stop)
    case True
    with ep show ?thesis by simp
  next
    case False
    from f Cons.prems(1) have fw': "\<forall>ws b xs. \<exists>ys. forward layer' ws b xs = Inr ys" by simp
    from rows_within_cong [OF s Cons.prems(2)]
    have shape': "\<forall>row \<in> set (weights layer'). length row \<le> length sample" .
    from Cons.IH [OF fw' shape', of lr' out'] False ep show ?thesis by simp
  qed
qed

lemma train_returns:
  assumes "get_data_sample d = Inr sample"
    and "get_normalized_target_value d number = Inr target"
    and "4 \<le> epochs"
    and "\<forall>ws b xs. \<exists>ys. forward layer ws b xs = Inr ys"
    and "\<forall>row \<in> set (weights layer). length row \<le> length sample"
  shows "\<exists>layer' out' r.
           train d number layer epochs learning_rate decay tol reg lasso ridge out
             = ((layer', out'), Inr r)"
proof -
  from assms(3) have "epochs div 4 \<noteq> 0" by presburger
  from train_loop_returns [OF assms(1,2) this assms(4,5),
      of decay tol reg lasso ridge "map int [0..<nat epochs]" learning_rate out]
  show ?thesis by (auto simp add: train_def split: prod.splits)
qed

text \<open>
  Claim C4 asks that \<^verbatim>\<open>train\<close> returns the weights and the bias in the first epoch
  whose prediction is within the tolerance, and \<^verbatim>\<open>None\<close> after all epochs when none is.
  With four epochs or more that is \<open>train_returns\<close> and
  \<open>train_returns_at_first_epoch_within_tolerance\<close>. With one, two or three epochs the
  decay of line 166 raises before the test of line 167 is reached: on the first sample of
  \<open>faces\<close> with three epochs, the blank layer is within the tolerance 1 in epoch 0 and
  the call raises \<^verbatim>\<open>ZeroDivisionError\<close> where the claim has it return
  \<open>([[0.01, 0.02]], 0.01)\<close>; with the tolerance \<open>0.001\<close> no epoch has been within the
  tolerance and the call raises where the claim has it return \<^verbatim>\<open>None\<close>.
\<close>

theorem train_three_epochs_raises:
  "within_tolerance faces 1 1 l0
   \<and> train faces 1 l0 3 (1/10) (9/10) 1 0 False True [] =
       ((\<lparr>weights = [[1/100, 1/50]], bias = 1/100, input_dataset = [1, 2],
           forward = linear_forward\<rparr>,
         [EpochReport 0 (- 100) 0 (3/50)]), Inl ZeroDivisionError)
   \<and> \<not> within_tolerance faces 1 (1/1000) l0
   \<and> train faces 1 l0 3 (1/10) (9/10) (1/1000) 0 False True [] =
       ((\<lparr>weights = [[1/100, 1/50]], bias = 1/100, input_dataset = [1, 2],
           forward = linear_forward\<rparr>,
         [EpochReport 0 (- 100) 0 (3/50)]), Inl ZeroDivisionError)"
  by (simp add: within_tolerance_def train_def train_epoch_def faces_sample faces_target l0_def
      get_layer_dataset_def linear_forward_def update_weights_def update_entry_def
      regularization_term_def get_ridge_regularization_def calculate_gradient_descent_def
      py_index_def py_store_def get_train_visualisation_def calculate_error_def
      calculate_learning_decay_def upt_rec)

section \<open>Properties of \<^verbatim>\<open>train_layers_on_dataset\<close>\<close>

text \<open>
  Line 158 stores the sample of the dataset into the input of the layer at the start of
  every epoch. A call of \<^verbatim>\<open>train\<close> that runs an epoch therefore does not depend on the
  input the layer came with.
\<close>

lemma train_epoch_overwrites_input:
  assumes "get_data_sample d = Inr sample"
  shows "train_epoch d number epochs decay tol reg lasso ridge epoch
           (l\<lparr>input_dataset := x\<rparr>, lr, out) =
         train_epoch d number epochs decay tol reg lasso ridge epoch (l, lr, out)"
  using assms by (simp add: train_epoch_def)

lemma train_overwrites_input:
  assumes "0 < epochs" and "get_data_sample d = Inr sample"
  shows "train d number (l\<lparr>input_dataset := x\<rparr>) epochs lr decay tol reg lasso ridge out =
         train d number l epochs lr decay tol reg lasso ridge out"
proof -
  from assms(1) have "[0..<nat epochs] = 0 # [Suc 0..<nat epochs]"
    by (simp add: upt_rec)
  then show ?thesis
    by (simp add: train_def train_epoch_overwrites_input [OF assms(2)])
qed

lemma one_face_sample: "get_data_sample one_face = Inr [1, 2]"
  by (simp add: get_data_sample_def get_data_dict_def one_face_def str_def digits.simps upto.simps)

lemma one_face_target: "get_normalized_target_value one_face 1 = Inr (1/10)"
  by (simp add: get_normalized_target_value_def get_data_dict_def one_face_def str_def
      digits.simps upto.simps py_index_def)

lemma one_face_category:
  "map_of (dataset one_face) (data_name one_face) = Some (Classes [(''1'', [[1, 2]])])"
  by (simp add: one_face_def)

lemma train_two:
  "train one_face 1 \<lparr>weights = [[0, 0], [0, 0]], bias = 0, input_dataset = x,
       forward = linear_forward\<rparr> 4 1 (9/10) 100 0 False True out =
   ((\<lparr>weights = [[1/10, 1/5], [1/10, 1/5]], bias = 1/10, input_dataset = [1, 2],
       forward = linear_forward\<rparr>,
     out @ [EpochReport 0 (- 100) 0 (6/5)]),
    Inr (Some ([[1/10, 1/5], [1/10, 1/5]], 1/10)))"
  by (simp add: train_def train_epoch_def one_face_sample one_face_target get_layer_dataset_def
      linear_forward_def update_weights_def update_entry_def regularization_term_def
      get_ridge_regularization_def calculate_gradient_descent_def py_index_def py_store_def
      get_train_visualisation_def calculate_error_def calculate_learning_decay_def upt_rec)

lemma train_one:
  "train one_face 1 \<lparr>weights = [[0, 0]], bias = 0, input_dataset = x,
       forward = linear_forward\<rparr> 4 1 (9/10) 100 0 False True out =
   ((\<lparr>weights = [[1/10, 1/5]], bias = 1/10, input_dataset = [1, 2],
       forward = linear_forward\<rparr>,
     out @ [EpochReport 0 (- 100) 0 (3/5)]),
    Inr (Some ([[1/10, 1/5]], 1/10)))"
  by (simp add: train_def train_epoch_def one_face_sample one_face_target get_layer_dataset_def
      linear_forward_def update_weights_def update_entry_def regularization_term_def
      get_ridge_regularization_def calculate_gradient_descent_def py_index_def py_store_def
      get_train_visualisation_def calculate_error_def calculate_learning_decay_def upt_rec)

text \<open>
  So an iteration that runs at least one epoch leaves each of the three layers as a call
  of \<^verbatim>\<open>train\<close> on that layer alone leaves it: the outputs stored by lines 213 and 219
  have no part in it.
\<close>

lemma train_sample_trains_on_raw_sample:
  assumes "0 < epochs"
    and "train_sample d epochs lr decay tol reg lasso ridge (h1, h2, ol, number, out) =
           ((h1', h2', ol', number', out'), None)"
  shows "h1' = fst (fst (train d number h1 epochs lr decay tol reg lasso ridge out))
       \<and> (\<exists>out1. h2' = fst (fst (train d number h2 epochs lr decay tol reg lasso ridge out1)))
       \<and> (\<exists>out2. ol' = fst (fst (train d number ol epochs lr decay tol reg lasso ridge out2)))
       \<and> number' = number + 1"
proof -
  from assms(2) obtain sample where s: "get_data_sample d = Inr sample"
    by (auto simp add: train_sample_def split: sum.splits)
  note ov = train_overwrites_input [OF assms(1) s]
  from assms(2) show ?thesis
    unfolding train_sample_def
    by (simp add: s ov split: sum.splits prod.splits) (metis fst_conv)
qed

text \<open>
  Claim C8 asks that in each iteration the second hidden layer is trained on the output
  of the first and the outer layer on the output of the second. Lines 213 and 219 store
  these outputs as the inputs of the layers, and the call of \<^verbatim>\<open>train\<close> that follows
  replaces them by the raw sample (\<open>train_overwrites_input\<close>,
  \<open>train_sample_trains_on_raw_sample\<close>). On the sample \<open>[1, 2]\<close>
  with target \<open>0.1\<close>, blank layers, rate 1 and one epoch each, the first hidden layer
  ends with the rows \<open>[0.1, 0.2]\<close> and the output \<open>[0.6, 0.6]\<close>. Training the second
  hidden layer on that output would give the rows \<open>[0.06, 0.06]\<close>; the call leaves the
  rows \<open>[0.1, 0.2]\<close> and the input \<open>[1, 2]\<close>, in the outer layer as well. The loop runs
  once, for the one entry of the category, and the three layers are saved under their
  keys.
\<close>

theorem train_layers_second_layer_example:
  "train_layers_on_dataset one_face 1 (blank 2) (blank 2) (blank 1) 4 1 (9/10) 100 0 False True [] =
   ((\<lparr>weights = [[1/10, 1/5], [1/10, 1/5]], bias = 1/10, input_dataset = [1, 2],
       forward = linear_forward\<rparr>,
     \<lparr>weights = [[1/10, 1/5], [1/10, 1/5]], bias = 1/10, input_dataset = [1, 2],
       forward = linear_forward\<rparr>,
     \<lparr>weights = [[1/10, 1/5]], bias = 1/10, input_dataset = [1, 2],
       forward = linear_forward\<rparr>,
     [EpochReport 0 (- 100) 0 (6/5), EpochReport 0 (- 100) 0 (6/5),
      EpochReport 0 (- 100) 0 (3/5), SampleReport 1 6]),
    Inr \<lparr>saved_weights =
           [(''hidden_layer_first'', [[1/10, 1/5], [1/10, 1/5]]),
            (''hidden_layer_second'', [[1/10, 1/5], [1/10, 1/5]]),
            (''output_outer_layer'', [[1/10, 1/5]])],
         saved_biases =
           [(''hidden_layer_first'', 1/10), (''hidden_layer_second'', 1/10),
            (''output_outer_layer'', 1/10)]\<rparr>)"
  by (simp add: train_layers_on_dataset_def one_face_category train_sample_def
      one_face_sample blank_def train_two train_one get_layer_dataset_def linear_forward_def
      get_train_layers_on_dataset_visualisation_def save_weights_and_biases_def
      category_keys_def numeral_2_eq_2 upt_rec)

end
